theory Spec2Isabelle
  imports Main
begin

section \<open>The atomic universe (exatomic/universe.py)\<close>

text \<open>
  A universe is a Python object whose attributes hold pandas tables. The base tables
  \<open>frame\<close> and \<open>atom\<close> are taken as populated. Every other attribute the class reads
  is a slot with three states, because the code tests some attributes with
  \<^verbatim>\<open>hasattr\<close> (\<^verbatim>\<open>self._is('_unit_atom')\<close>) and others with \<^verbatim>\<open>is None\<close>
  (\<^verbatim>\<open>self._projected_atom is None\<close>): the attribute does not exist (\<open>Unset\<close>), it
  holds \<^verbatim>\<open>None\<close> (\<open>PyNone\<close>), or it holds a table (\<open>Val\<close>). Reading an attribute
  that does not exist raises \<^verbatim>\<open>AttributeError\<close>.

  A method mutates the object and may raise, so a method is a function from the
  universe to an outcome paired with the universe as it is when the method returns or
  raises: \<open>(Inl e, u')\<close> is the exception \<open>e\<close> leaving the object as \<open>u'\<close>.
\<close>

datatype error =
  AttributeError | IndexError | NotImplementedError | TypeError | ValueError
  | HelperError string

datatype 'a attr = Unset | PyNone | Val 'a

type_synonym ('a, 's) res = "(error + 'a) \<times> 's"

subsection \<open>Tables\<close>

text \<open>
  A DataFrame is the list of its rows in order, each with its index label. Tables of
  one declared class share their columns, so a row is a record; \<open>None\<close> in a cell is
  NaN (a column that a table lacks reads as NaN in every row).
  Coordinates are floats that the universe only moves around: their type is the
  parameter \<open>'c\<close>.
\<close>

type_synonym 'r df = "(int \<times> 'r) list"

text \<open>Rows of Atom, and of the sparse overlays UnitAtom and VisualAtom.\<close>

record 'c atom_row =
  symbol :: "string option"
  frame_id :: "int option"
  cx :: "'c option"
  cy :: "'c option"
  cz :: "'c option"
  bond_count :: "int option"

text \<open>Rows of ProjectedAtom: \<open>src_atom\<close> is the column \<^verbatim>\<open>atom\<close>, the source atom.\<close>

record 'c prjd_row =
  src_atom :: int
  px :: "'c option"
  py :: "'c option"
  pz :: "'c option"
  prjd_bond_count :: "int option"

text \<open>Rows of Two (free) and of PeriodicTwo.\<close>

record 'c two_row =
  atom0 :: int
  atom1 :: int
  distance :: 'c
  bond :: bool

record 'c ptwo_row =
  prjd_atom0 :: int
  prjd_atom1 :: int
  pdistance :: 'c
  pbond :: bool

text \<open>
  The Frame table: the universe reads its index (\<^verbatim>\<open>self.frame.index\<close>) and its
  property \<^verbatim>\<open>is_periodic\<close>.
\<close>

record frame_tbl =
  frame_index :: "int list"
  frame_is_periodic :: bool

text \<open>
  A field: the dimension rows and the list of value arrays
  (\<^verbatim>\<open>field_values\<close>), one array per row.
\<close>

record 'c field_row =
  ff_frame :: "int option"
  ff_label :: "int option"
  ff_counts :: "nat \<times> nat \<times> nat"
  ff_geom :: "'c list"

record 'c field =
  dims :: "'c field_row df"
  field_values :: "'c list list"

subsection \<open>The universe\<close>

text \<open>
  \<open>two_free\<close> and \<open>two_periodic\<close> are the typed attributes declared in class
  \<^verbatim>\<open>Meta\<close>. \<open>periodic_two\<close> is the attribute of that name, which
  \<^verbatim>\<open>truncate_projected_atom\<close> reads and no method of the class assigns. The slots
  \<open>attr_X\<close> are the private attributes \<^verbatim>\<open>_X\<close>. The molecule table is only handed to
  helpers: its type is the parameter \<open>'m\<close>.
\<close>

record ('c, 'm) universe =
  frame :: frame_tbl
  atom :: "'c atom_row df"
  two_free :: "'c two_row df attr"
  two_periodic :: "'c ptwo_row df attr"
  periodic_two :: "'c ptwo_row df attr"
  attr_unit_atom :: "'c atom_row df attr"
  attr_visual_atom :: "'c atom_row df attr"
  attr_projected_atom :: "'c prjd_row df attr"
  attr_molecule :: "'m attr"
  attr_field :: "'c field attr"
  traits_need_update :: bool

text \<open>\<^verbatim>\<open>_is(x)\<close> is \<^verbatim>\<open>hasattr(self, x)\<close>.\<close>

definition attr_is :: "'a attr \<Rightarrow> bool" where
  "attr_is a = (a \<noteq> Unset)"

definition is_periodic :: "('c, 'm) universe \<Rightarrow> bool" where
  "is_periodic u = frame_is_periodic (frame u)"

text \<open>
  Reading a private attribute: \<open>None\<close> in the result is Python's \<^verbatim>\<open>None\<close>.
\<close>

definition getattr :: "'a attr \<Rightarrow> 's \<Rightarrow> ('a option, 's) res" where
  "getattr a u = (case a of
      Unset \<Rightarrow> (Inl AttributeError, u)
    | PyNone \<Rightarrow> (Inr None, u)
    | Val t \<Rightarrow> (Inr (Some t), u))"

subsection \<open>pandas operations\<close>

text \<open>
  \<^verbatim>\<open>DataFrame.update(other)\<close> aligns \<open>other\<close> on the index of the table and
  overwrites each cell with the cell of \<open>other\<close> where that is not NaN. The alignment
  reindexes \<open>other\<close>, which pandas refuses when labels of \<open>other\<close> repeat.
  \<^verbatim>\<open>update(None)\<close> is the update with an empty table.
\<close>

definition over :: "'a option \<Rightarrow> 'a option \<Rightarrow> 'a option" where
  "over this that = (case that of None \<Rightarrow> this | Some w \<Rightarrow> Some w)"

definition update_row :: "'c atom_row \<Rightarrow> 'c atom_row \<Rightarrow> 'c atom_row" where
  "update_row r o' = \<lparr> symbol = over (symbol r) (symbol o'),
      frame_id = over (frame_id r) (frame_id o'),
      cx = over (cx r) (cx o'), cy = over (cy r) (cy o'), cz = over (cz r) (cz o'),
      bond_count = over (bond_count r) (bond_count o') \<rparr>"

definition update :: "'c atom_row df \<Rightarrow> 'c atom_row df \<Rightarrow> error + 'c atom_row df" where
  "update t other =
     (if distinct (map fst other)
      then Inr (map (\<lambda>(i, r). (i, case map_of other i of None \<Rightarrow> r | Some o' \<Rightarrow> update_row r o')) t)
      else Inl ValueError)"

text \<open>
  \<^verbatim>\<open>atom = self.atom.copy(); atom.update(self._X); return atom\<close>, the tail of the
  accessors \<^verbatim>\<open>unit_atom\<close> and \<^verbatim>\<open>visual_atom\<close>, for the slot \<^verbatim>\<open>_X\<close>.
\<close>

definition updated_copy ::
  "'c atom_row df attr \<Rightarrow> ('c, 'm) universe \<Rightarrow> ('c atom_row df, ('c, 'm) universe) res" where
  "updated_copy a u = (case a of
      Unset \<Rightarrow> (Inl AttributeError, u)
    | PyNone \<Rightarrow> (update (atom u) [], u)
    | Val t \<Rightarrow> (update (atom u) t, u))"

subsection \<open>Compute methods\<close>

text \<open>
  The helpers \<^verbatim>\<open>_cua\<close>, \<^verbatim>\<open>_cpa\<close>, \<^verbatim>\<open>_cva\<close>, \<^verbatim>\<open>_cm\<close>, \<^verbatim>\<open>_cmcom\<close>,
  \<^verbatim>\<open>_ctb\<close>, \<^verbatim>\<open>_cbc\<close> and \<^verbatim>\<open>_cpbc\<close> are imported from other
  modules. Each receives the universe, may mutate it and may raise: it is a parameter of
  type \<open>universe \<Rightarrow> (table, universe) res\<close>.
\<close>

type_synonym ('a, 'c, 'm) helper = "('c, 'm) universe \<Rightarrow> ('a, ('c, 'm) universe) res"

text \<open>
  Assigning a base table, \<^verbatim>\<open>self.frame = f\<close> or \<^verbatim>\<open>self.atom = a\<close> (the typed
  attributes of class \<^verbatim>\<open>Meta\<close>), stores the table.
  \<^verbatim>\<open>compute_frame\<close> is \<^verbatim>\<open>self.frame = minimal_frame(self.atom)\<close>: the helper
  receives the atom table only.
\<close>

definition set_frame :: "frame_tbl \<Rightarrow> ('c, 'm) universe \<Rightarrow> ('c, 'm) universe" where
  "set_frame f u = u\<lparr>frame := f\<rparr>"

definition set_atom :: "'c atom_row df \<Rightarrow> ('c, 'm) universe \<Rightarrow> ('c, 'm) universe" where
  "set_atom a u = u\<lparr>atom := a\<rparr>"

definition compute_frame ::
  "('c atom_row df \<Rightarrow> error + frame_tbl) \<Rightarrow> ('c, 'm) universe \<Rightarrow> (unit, ('c, 'm) universe) res" where
  "compute_frame minimal_frame u = (case minimal_frame (atom u) of
      Inl e \<Rightarrow> (Inl e, u)
    | Inr f \<Rightarrow> (Inr (), set_frame f u))"

text \<open>
  The derived tables of a universe: the slots that the compute methods fill.
\<close>

definition derived_tables where
  "derived_tables u = (attr_unit_atom u, attr_visual_atom u, attr_projected_atom u,
     two_free u, two_periodic u, attr_molecule u)"

definition compute_unit_atom ::
  "('c atom_row df, 'c, 'm) helper \<Rightarrow> ('c, 'm) universe \<Rightarrow> (unit, ('c, 'm) universe) res" where
  "compute_unit_atom cua u = (case cua u of
      (Inl e, u1) \<Rightarrow> (Inl e, u1)
    | (Inr t, u1) \<Rightarrow> (Inr (), u1\<lparr>attr_unit_atom := Val t\<rparr>))"

definition compute_projected_atom ::
  "('c prjd_row df, 'c, 'm) helper \<Rightarrow> ('c, 'm) universe \<Rightarrow> (unit, ('c, 'm) universe) res" where
  "compute_projected_atom cpa u = (case cpa u of
      (Inl e, u1) \<Rightarrow> (Inl e, u1)
    | (Inr t, u1) \<Rightarrow> (Inr (), u1\<lparr>attr_projected_atom := Val t\<rparr>))"

definition compute_visual_atom ::
  "('c atom_row df, 'c, 'm) helper \<Rightarrow> ('c, 'm) universe \<Rightarrow> (unit, ('c, 'm) universe) res" where
  "compute_visual_atom cva u = (case cva u of
      (Inl e, u1) \<Rightarrow> (Inl e, u1)
    | (Inr t, u1) \<Rightarrow> (Inr (), u1\<lparr>attr_visual_atom := Val t\<rparr>))"

text \<open>
  \<^verbatim>\<open>compute_molecule(com=False)\<close>. With \<open>com\<close> the centres of mass from
  \<^verbatim>\<open>_cmcom\<close> are joined column-wise onto the table:
  \<^verbatim>\<open>Molecule(pd.concat((self._molecule, _cmcom(self)), axis=1))\<close> is the parameter
  \<open>hconcat\<close>, applied to what \<^verbatim>\<open>self._molecule\<close> holds and to the centres of mass.
\<close>

definition compute_molecule ::
  "('m, 'c, 'm) helper \<Rightarrow> ('c atom_row df, 'c, 'm) helper \<Rightarrow> ('k, 'c, 'm) helper \<Rightarrow>
   ('m option \<Rightarrow> 'k \<Rightarrow> error + 'm) \<Rightarrow> bool \<Rightarrow> ('c, 'm) universe \<Rightarrow>
   (unit, ('c, 'm) universe) res" where
  "compute_molecule cm cva cmcom hconcat com u =
     (if com then
        (case cm u of
           (Inl e, u1) \<Rightarrow> (Inl e, u1)
         | (Inr m, u1) \<Rightarrow>
            (case compute_visual_atom cva (u1\<lparr>attr_molecule := Val m\<rparr>) of
               (Inl e, u2) \<Rightarrow> (Inl e, u2)
             | (Inr _, u2) \<Rightarrow>
                (case getattr (attr_molecule u2) u2 of
                   (Inl e, u3) \<Rightarrow> (Inl e, u3)
                 | (Inr m2, u3) \<Rightarrow>
                    (case cmcom u3 of
                       (Inl e, u4) \<Rightarrow> (Inl e, u4)
                     | (Inr k, u4) \<Rightarrow>
                        (case hconcat m2 k of
                           Inl e \<Rightarrow> (Inl e, u4)
                         | Inr m3 \<Rightarrow> (Inr (), u4\<lparr>attr_molecule := Val m3\<rparr>))))))
      else
        (case cm u of
           (Inl e, u1) \<Rightarrow> (Inl e, u1)
         | (Inr m, u1) \<Rightarrow> (Inr (), u1\<lparr>attr_molecule := Val m\<rparr>)))"

subsection \<open>Accessor properties\<close>

definition two :: "('c, 'm) universe \<Rightarrow> ('c two_row df attr) + ('c ptwo_row df attr)" where
  "two u = (if is_periodic u then Inr (two_periodic u) else Inl (two_free u))"

definition unit_atom ::
  "('c atom_row df, 'c, 'm) helper \<Rightarrow> ('c, 'm) universe \<Rightarrow> ('c atom_row df, ('c, 'm) universe) res" where
  "unit_atom cua u =
     (case (if \<not> attr_is (attr_unit_atom u) then compute_unit_atom cua u else (Inr (), u)) of
        (Inl e, u1) \<Rightarrow> (Inl e, u1)
      | (Inr _, u1) \<Rightarrow> updated_copy (attr_unit_atom u1) u1)"

definition visual_atom ::
  "('c atom_row df, 'c, 'm) helper \<Rightarrow> ('c, 'm) universe \<Rightarrow> ('c atom_row df, ('c, 'm) universe) res" where
  "visual_atom cva u =
     (if is_periodic u then
        (case getattr (attr_visual_atom u) u of
           (Inl e, u0) \<Rightarrow> (Inl e, u0)
         | (Inr v, u0) \<Rightarrow>
            (case (if v = None then compute_visual_atom cva u0 else (Inr (), u0)) of
               (Inl e, u1) \<Rightarrow> (Inl e, u1)
             | (Inr _, u1) \<Rightarrow> updated_copy (attr_visual_atom u1) u1))
      else (Inr (atom u), u))"

definition projected_atom ::
  "('c prjd_row df, 'c, 'm) helper \<Rightarrow> ('c, 'm) universe \<Rightarrow>
   ('c prjd_row df option, ('c, 'm) universe) res" where
  "projected_atom cpa u =
     (case getattr (attr_projected_atom u) u of
        (Inl e, u0) \<Rightarrow> (Inl e, u0)
      | (Inr v, u0) \<Rightarrow>
         (case (if v = None then compute_projected_atom cpa u0 else (Inr (), u0)) of
            (Inl e, u1) \<Rightarrow> (Inl e, u1)
          | (Inr _, u1) \<Rightarrow> getattr (attr_projected_atom u1) u1))"

text \<open>The accessor calls \<^verbatim>\<open>self.compute_molecule()\<close>, that is with \<open>com = False\<close>.\<close>

definition molecule ::
  "('m, 'c, 'm) helper \<Rightarrow> ('c atom_row df, 'c, 'm) helper \<Rightarrow> ('k, 'c, 'm) helper \<Rightarrow>
   ('m option \<Rightarrow> 'k \<Rightarrow> error + 'm) \<Rightarrow> ('c, 'm) universe \<Rightarrow>
   ('m option, ('c, 'm) universe) res" where
  "molecule cm cva cmcom hconcat u =
     (case (if \<not> attr_is (attr_molecule u)
            then compute_molecule cm cva cmcom hconcat False u
            else (Inr (), u)) of
        (Inl e, u1) \<Rightarrow> (Inl e, u1)
      | (Inr _, u1) \<Rightarrow> getattr (attr_molecule u1) u1)"

subsection \<open>Operations that are not implemented\<close>

definition append_dataframe :: "'d \<Rightarrow> ('c, 'm) universe \<Rightarrow> (unit, ('c, 'm) universe) res" where
  "append_dataframe d u = (Inl NotImplementedError, u)"

definition slice_by_molecules :: "'i \<Rightarrow> ('c, 'm) universe \<Rightarrow> (unit, ('c, 'm) universe) res" where
  "slice_by_molecules identifier u = (Inl NotImplementedError, u)"

subsection \<open>Two-body tables and truncation\<close>

text \<open>
  \<^verbatim>\<open>truncate_projected_atom\<close> reads \<^verbatim>\<open>self.periodic_two\<close> and the private
  \<^verbatim>\<open>self._projected_atom\<close> (not the accessor). \<open>prjd_ids\<close> is the Series \<open>pa\<close>:
  the column \<^verbatim>\<open>prjd_atom0\<close> followed by the column \<^verbatim>\<open>prjd_atom1\<close>.
  \<^verbatim>\<open>index.isin(pa)\<close> keeps the rows whose label is among the values of \<open>pa\<close>.
\<close>

definition prjd_ids :: "'c ptwo_row df \<Rightarrow> int list" where
  "prjd_ids t = map (\<lambda>(i, r). prjd_atom0 r) t @ map (\<lambda>(i, r). prjd_atom1 r) t"

definition truncate_projected_atom ::
  "('c, 'm) universe \<Rightarrow> (unit, ('c, 'm) universe) res" where
  "truncate_projected_atom u =
     (case getattr (periodic_two u) u of
        (Inl e, u0) \<Rightarrow> (Inl e, u0)
      | (Inr None, u0) \<Rightarrow> (Inl TypeError, u0)
      | (Inr (Some t), u0) \<Rightarrow>
         (let pa = prjd_ids t in
          case getattr (attr_projected_atom u0) u0 of
            (Inl e, u1) \<Rightarrow> (Inl e, u1)
          | (Inr None, u1) \<Rightarrow> (Inl AttributeError, u1)
          | (Inr (Some p), u1) \<Rightarrow>
             (Inr (), u1\<lparr>attr_projected_atom := Val (filter (\<lambda>(i, r). i \<in> set pa) p)\<rparr>)))"

text \<open>
  \<^verbatim>\<open>compute_two_body(*args, truncate_projected=True, **kwargs)\<close>. The helper
  \<^verbatim>\<open>_ctb\<close> (with its arguments) gives a PeriodicTwo for a periodic universe and a Two
  for a free one: \<open>ctbp\<close> is the helper on the periodic branch, \<open>ctbf\<close> on the free one.
\<close>

definition compute_two_body ::
  "('c ptwo_row df, 'c, 'm) helper \<Rightarrow> ('c two_row df, 'c, 'm) helper \<Rightarrow> bool \<Rightarrow>
   ('c, 'm) universe \<Rightarrow> (unit, ('c, 'm) universe) res" where
  "compute_two_body ctbp ctbf truncate_projected u =
     (if is_periodic u then
        (case ctbp u of
           (Inl e, u1) \<Rightarrow> (Inl e, u1)
         | (Inr t, u1) \<Rightarrow>
            (if truncate_projected then truncate_projected_atom (u1\<lparr>two_periodic := Val t\<rparr>)
             else (Inr (), u1\<lparr>two_periodic := Val t\<rparr>)))
      else
        (case ctbf u of
           (Inl e, u1) \<Rightarrow> (Inl e, u1)
         | (Inr t, u1) \<Rightarrow> (Inr (), u1\<lparr>two_free := Val t\<rparr>)))"

definition compute_two_free ::
  "('c ptwo_row df, 'c, 'm) helper \<Rightarrow> ('c two_row df, 'c, 'm) helper \<Rightarrow> bool \<Rightarrow>
   ('c, 'm) universe \<Rightarrow> (unit, ('c, 'm) universe) res" where
  "compute_two_free ctbp ctbf truncate_projected u = compute_two_body ctbp ctbf truncate_projected u"

definition compute_two_periodic ::
  "('c ptwo_row df, 'c, 'm) helper \<Rightarrow> ('c two_row df, 'c, 'm) helper \<Rightarrow> bool \<Rightarrow>
   ('c, 'm) universe \<Rightarrow> (unit, ('c, 'm) universe) res" where
  "compute_two_periodic ctbp ctbf truncate_projected u = compute_two_body ctbp ctbf truncate_projected u"

subsection \<open>Bond counts\<close>

text \<open>
  A Series of counts is the list of its labelled values. Assigning a Series to a column
  (\<^verbatim>\<open>table['bond_count'] = series\<close>) aligns it on the index of the table: a row whose
  label the Series lacks gets NaN; pandas refuses to align a Series whose labels repeat.
  \<^verbatim>\<open>fillna(v)\<close> puts \<open>v\<close> in the NaN cells; \<^verbatim>\<open>astype(np.int64)\<close> and
  \<^verbatim>\<open>astype('category')\<close> keep the integer values.
\<close>

type_synonym series = "(int \<times> int) list"

definition setitem_bond_count :: "series \<Rightarrow> 'c atom_row df \<Rightarrow> error + 'c atom_row df" where
  "setitem_bond_count s t =
     (if distinct (map fst s)
      then Inr (map (\<lambda>(i, r). (i, r\<lparr>bond_count := map_of s i\<rparr>)) t)
      else Inl ValueError)"

definition fillna_bond_count :: "int \<Rightarrow> 'c atom_row df \<Rightarrow> 'c atom_row df" where
  "fillna_bond_count v t =
     map (\<lambda>(i, r). (i, r\<lparr>bond_count := (case bond_count r of None \<Rightarrow> Some v | Some c \<Rightarrow> Some c)\<rparr>)) t"

definition setitem_prjd_bond_count :: "series \<Rightarrow> 'c prjd_row df \<Rightarrow> error + 'c prjd_row df" where
  "setitem_prjd_bond_count s t =
     (if distinct (map fst s)
      then Inr (map (\<lambda>(i, r). (i, r\<lparr>prjd_bond_count := map_of s i\<rparr>)) t)
      else Inl ValueError)"

definition fillna_prjd_bond_count :: "int \<Rightarrow> 'c prjd_row df \<Rightarrow> 'c prjd_row df" where
  "fillna_prjd_bond_count v t =
     map (\<lambda>(i, r). (i, r\<lparr>prjd_bond_count := (case prjd_bond_count r of None \<Rightarrow> Some v | Some c \<Rightarrow> Some c)\<rparr>)) t"

text \<open>
  \<^verbatim>\<open>compute_bond_count\<close>: the right-hand side \<^verbatim>\<open>_cbc(self)\<close> runs first, then the
  column of \<^verbatim>\<open>self.atom\<close> is set in place, filled with 0 and cast.
\<close>

definition compute_bond_count ::
  "(series, 'c, 'm) helper \<Rightarrow> ('c, 'm) universe \<Rightarrow> (unit, ('c, 'm) universe) res" where
  "compute_bond_count cbc u =
     (case cbc u of
        (Inl e, u1) \<Rightarrow> (Inl e, u1)
      | (Inr s, u1) \<Rightarrow>
         (case setitem_bond_count s (atom u1) of
            Inl e \<Rightarrow> (Inl e, u1)
          | Inr t \<Rightarrow> (Inr (), u1\<lparr>atom := fillna_bond_count 0 t\<rparr>)))"

text \<open>
  A statement \<^verbatim>\<open>self.projected_atom['bond_count'] = ...\<close> goes through the accessor
  and changes the cached table in place.
\<close>

definition on_projected_atom ::
  "('c prjd_row df, 'c, 'm) helper \<Rightarrow> ('c prjd_row df \<Rightarrow> error + 'c prjd_row df) \<Rightarrow>
   ('c, 'm) universe \<Rightarrow> (unit, ('c, 'm) universe) res" where
  "on_projected_atom cpa f u =
     (case projected_atom cpa u of
        (Inl e, u1) \<Rightarrow> (Inl e, u1)
      | (Inr None, u1) \<Rightarrow> (Inl TypeError, u1)
      | (Inr (Some p), u1) \<Rightarrow>
         (case f p of
            Inl e \<Rightarrow> (Inl e, u1)
          | Inr p' \<Rightarrow> (Inr (), u1\<lparr>attr_projected_atom := Val p'\<rparr>)))"

definition compute_projected_bond_count ::
  "(series, 'c, 'm) helper \<Rightarrow> ('c prjd_row df, 'c, 'm) helper \<Rightarrow>
   ('c, 'm) universe \<Rightarrow> (unit, ('c, 'm) universe) res" where
  "compute_projected_bond_count cpbc cpa u =
     (case cpbc u of
        (Inl e, u1) \<Rightarrow> (Inl e, u1)
      | (Inr s, u1) \<Rightarrow>
         (case on_projected_atom cpa (setitem_prjd_bond_count s) u1 of
            (Inl e, u2) \<Rightarrow> (Inl e, u2)
          | (Inr _, u2) \<Rightarrow>
             (case on_projected_atom cpa (\<lambda>p. Inr (fillna_prjd_bond_count (- 1) p)) u2 of
                (Inl e, u3) \<Rightarrow> (Inl e, u3)
              | (Inr _, u3) \<Rightarrow> on_projected_atom cpa Inr u3)))"

subsection \<open>Fields\<close>

text \<open>
  The argument \<open>frame\<close> of \<^verbatim>\<open>append_field\<close>, by the test
  \<^verbatim>\<open>isinstance(frame, int) or isinstance(frame, np.int64) or isinstance(frame, np.int32)\<close>:
  \<^verbatim>\<open>None\<close>; an integer of one of the three types (\<open>FrameInt\<close>); an integer of
  another type, such as \<^verbatim>\<open>np.int16\<close> (\<open>FrameOtherInt\<close>); or a value that is no
  integer. Only \<open>FrameInt\<close> passes the test.
\<close>

datatype frame_arg = FrameNone | FrameInt int | FrameOtherInt int | FrameOther

text \<open>\<^verbatim>\<open>field['frame'] = frame\<close> sets the column on every row.\<close>

definition assign_frame :: "int \<Rightarrow> 'c field \<Rightarrow> 'c field" where
  "assign_frame k fld = fld\<lparr>dims := map (\<lambda>(i, r). (i, r\<lparr>ff_frame := Some k\<rparr>)) (dims fld)\<rparr>"

text \<open>
  \<^verbatim>\<open>pd.concat((a, b), ignore_index=True)\<close> followed by
  \<^verbatim>\<open>reset_index(drop=True)\<close>: the rows of \<open>a\<close>, then the rows of \<open>b\<close>, labelled
  \<open>0, 1, ...\<close> anew.
\<close>

definition concat_ignore_index :: "'r df \<Rightarrow> 'r df \<Rightarrow> 'r df" where
  "concat_ignore_index a b =
     zip (map int [0 ..< length a + length b]) (map snd a @ map snd b)"

text \<open>
  \<^verbatim>\<open>append_field(field, frame=None, field_values=None)\<close>. The method
  \<^verbatim>\<open>_reconstruct_field\<close> is inherited from the container class of the \<^verbatim>\<open>exa\<close>
  package: it is the parameter \<open>rf\<close>, which builds the field to attach from the
  argument and the values. \<^verbatim>\<open>_revert_categories\<close> and \<^verbatim>\<open>_set_categories\<close> change
  the storage type of columns and no value.
\<close>

definition append_field ::
  "('c field \<Rightarrow> 'c list list option \<Rightarrow> error + 'c field) \<Rightarrow>
   'c field \<Rightarrow> frame_arg \<Rightarrow> 'c list list option \<Rightarrow>
   ('c, 'm) universe \<Rightarrow> (unit, ('c, 'm) universe) res" where
  "append_field rf fld frm fvalues u =
     (case (case frm of
              FrameInt k \<Rightarrow>
                (if k \<notin> set (frame_index (frame u)) then Inl IndexError
                 else Inr (assign_frame k fld))
            | _ \<Rightarrow> Inr fld) of
        Inl e \<Rightarrow> (Inl e, u)
      | Inr fld1 \<Rightarrow>
         (case rf fld1 fvalues of
            Inl e \<Rightarrow> (Inl e, u)
          | Inr d \<Rightarrow>
             (case getattr (attr_field u) u of
                (Inl e, u1) \<Rightarrow> (Inl e, u1)
              | (Inr None, u1) \<Rightarrow>
                 (Inr (), u1\<lparr>attr_field := Val d, traits_need_update := True\<rparr>)
              | (Inr (Some st), u1) \<Rightarrow>
                 (Inr (), u1\<lparr>attr_field :=
                      Val \<lparr>dims = concat_ignore_index (dims st) (dims d),
                           field_values = field_values st @ field_values d\<rparr>,
                    traits_need_update := True\<rparr>))))"

subsection \<open>Molecule classification\<close>

text \<open>
  \<^verbatim>\<open>classify_molecules(*args, **kwargs)\<close> is
  \<^verbatim>\<open>self.molecule.classify(*args, **kwargs)\<close>. The method \<^verbatim>\<open>classify\<close> of the
  molecule table (with its arguments) is the parameter \<open>classify\<close>: it changes the table
  in place and may raise.
\<close>

definition classify_molecules ::
  "('m, 'c, 'm) helper \<Rightarrow> ('c atom_row df, 'c, 'm) helper \<Rightarrow> ('k, 'c, 'm) helper \<Rightarrow>
   ('m option \<Rightarrow> 'k \<Rightarrow> error + 'm) \<Rightarrow> ('m \<Rightarrow> (unit, 'm) res) \<Rightarrow>
   ('c, 'm) universe \<Rightarrow> (unit, ('c, 'm) universe) res" where
  "classify_molecules cm cva cmcom hconcat classify u =
     (case molecule cm cva cmcom hconcat u of
        (Inl e, u1) \<Rightarrow> (Inl e, u1)
      | (Inr None, u1) \<Rightarrow> (Inl AttributeError, u1)
      | (Inr (Some m), u1) \<Rightarrow>
         (case classify m of
            (r, m') \<Rightarrow> (r, u1\<lparr>attr_molecule := Val m'\<rparr>)))"

subsection \<open>The bond-count helpers\<close>

text \<open>
  Modelled from the spec: the helpers \<^verbatim>\<open>_cbc\<close> and \<^verbatim>\<open>_cpbc\<close>
  (\<^verbatim>\<open>exatomic.two.compute_bond_count\<close> and
  \<^verbatim>\<open>exatomic.two.compute_projected_bond_count\<close>), whose module is not among the
  sources. The spec: "per-atom bond count = number of bonds in Two/PeriodicTwo
  referencing that atom (or its projected images, summed back to source atom)", and
  "same but per projected-atom row"; an atom or image that no bond references is left
  unassigned, that is, has no entry in the Series returned.
  \<open>n_bonds_free t a\<close> counts the bonds of a free table that reference atom \<open>a\<close>,
  \<open>n_bonds_prjd t j\<close> the bonds of a periodic table that reference image \<open>j\<close>, and
  \<open>n_bonds_src p t a\<close> sums the latter over the images of \<open>a\<close> in the projected table.
\<close>

definition n_bonds_free :: "'c two_row df \<Rightarrow> int \<Rightarrow> nat" where
  "n_bonds_free t a = length (filter (\<lambda>(i, r). bond r \<and> (atom0 r = a \<or> atom1 r = a)) t)"

definition n_bonds_prjd :: "'c ptwo_row df \<Rightarrow> int \<Rightarrow> nat" where
  "n_bonds_prjd t j =
     length (filter (\<lambda>(i, r). pbond r \<and> (prjd_atom0 r = j \<or> prjd_atom1 r = j)) t)"

definition n_bonds_src :: "'c prjd_row df \<Rightarrow> 'c ptwo_row df \<Rightarrow> int \<Rightarrow> nat" where
  "n_bonds_src p t a =
     sum_list (map (\<lambda>(j, r). n_bonds_prjd t j) (filter (\<lambda>(j, r). src_atom r = a) p))"

definition counts_series :: "(int \<Rightarrow> nat) \<Rightarrow> int list \<Rightarrow> series" where
  "counts_series f keys = map (\<lambda>a. (a, int (f a))) (filter (\<lambda>a. 0 < f a) (remdups keys))"

definition cbc_spec :: "(series, 'c, 'm) helper" where
  "cbc_spec u =
     (if is_periodic u then
        (case two_periodic u of
           Val t \<Rightarrow>
             (case attr_projected_atom u of
                Val p \<Rightarrow> (Inr (counts_series (n_bonds_src p t) (map (\<lambda>(j, r). src_atom r) p)), u)
              | _ \<Rightarrow> (Inl (HelperError ''MissingDataError''), u))
         | _ \<Rightarrow> (Inl (HelperError ''MissingDataError''), u))
      else
        (case two_free u of
           Val t \<Rightarrow>
             (Inr (counts_series (n_bonds_free t)
                     (map (\<lambda>(i, r). atom0 r) t @ map (\<lambda>(i, r). atom1 r) t)), u)
         | _ \<Rightarrow> (Inl (HelperError ''MissingDataError''), u)))"

definition cpbc_spec :: "(series, 'c, 'm) helper" where
  "cpbc_spec u =
     (case two_periodic u of
        Val t \<Rightarrow> (Inr (counts_series (n_bonds_prjd t) (prjd_ids t)), u)
      | _ \<Rightarrow> (Inl (HelperError ''MissingDataError''), u))"

subsection \<open>Example universes\<close>

text \<open>
  Two hydrogen atoms in one frame, with integers standing for the coordinates and a
  list of formulas for the molecule table.
\<close>

definition H_at :: "int \<Rightarrow> int atom_row" where
  "H_at v = \<lparr>symbol = Some ''H'', frame_id = Some 0, cx = Some v, cy = Some 0, cz = Some 0,
            bond_count = None\<rparr>"

definition moved_to :: "int \<Rightarrow> int atom_row" where
  "moved_to v = \<lparr>symbol = None, frame_id = None, cx = Some v, cy = None, cz = None,
               bond_count = None\<rparr>"

definition image_of :: "int \<Rightarrow> int \<Rightarrow> int prjd_row" where
  "image_of a v = \<lparr>src_atom = a, px = Some v, py = Some 0, pz = Some 0, prjd_bond_count = None\<rparr>"

definition images_ex :: "int prjd_row df" where
  "images_ex = [(0, image_of 0 (- 9)), (1, image_of 0 1), (2, image_of 0 11),
                (3, image_of 1 (- 1)), (4, image_of 1 9), (5, image_of 1 19)]"

definition ptwo_ex :: "int ptwo_row df" where
  "ptwo_ex = [(0, \<lparr>prjd_atom0 = 1, prjd_atom1 = 3, pdistance = 2, pbond = True\<rparr>)]"

definition two_ex :: "int two_row df" where
  "two_ex = [(0, \<lparr>atom0 = 0, atom1 = 1, distance = 8, bond = False\<rparr>)]"

definition free_universe :: "(int, string list) universe" where
  "free_universe = \<lparr>frame = \<lparr>frame_index = [0], frame_is_periodic = False\<rparr>,
      atom = [(0, H_at 1), (1, H_at 9)],
      two_free = Unset, two_periodic = Unset, periodic_two = Unset,
      attr_unit_atom = Unset, attr_visual_atom = PyNone, attr_projected_atom = PyNone,
      attr_molecule = Unset, attr_field = PyNone, traits_need_update = False\<rparr>"

definition periodic_universe :: "(int, string list) universe" where
  "periodic_universe = free_universe\<lparr>frame := \<lparr>frame_index = [0], frame_is_periodic = True\<rparr>\<rparr>"

text \<open>Helpers that return a fixed table and leave the universe alone.\<close>

definition returns :: "'a \<Rightarrow> ('a, 'c, 'm) helper" where
  "returns v u = (Inr v, u)"

definition raises :: "error \<Rightarrow> ('a, 'c, 'm) helper" where
  "raises e u = (Inl e, u)"

definition bonded_universe :: "(int, string list) universe" where
  "bonded_universe = free_universe\<lparr>atom := [(0, H_at 1), (1, H_at 9), (2, H_at 2)],
      two_free := Val [(0, \<lparr>atom0 = 0, atom1 = 1, distance = 8, bond = False\<rparr>),
                       (1, \<lparr>atom0 = 0, atom1 = 2, distance = 1, bond = True\<rparr>),
                       (2, \<lparr>atom0 = 1, atom1 = 2, distance = 7, bond = False\<rparr>)]\<rparr>"

definition bonded_periodic_universe :: "(int, string list) universe" where
  "bonded_periodic_universe =
     periodic_universe\<lparr>two_periodic := Val ptwo_ex, attr_projected_atom := Val images_ex\<rparr>"

text \<open>A classifier that tags every formula, and fields to append.\<close>

definition tag_solute :: "string list \<Rightarrow> (unit, string list) res" where
  "tag_solute m = (Inr (), map (\<lambda>f. f @ '':solute'') m)"

definition grid :: "int \<Rightarrow> int field_row" where
  "grid l = \<lparr>ff_frame = None, ff_label = Some l, ff_counts = (2, 1, 1), ff_geom = [0, 1]\<rparr>"

definition store_ex :: "int field" where
  "store_ex = \<lparr>dims = [(3, grid 0), (7, grid 1)], field_values = [[5, 6], [7, 8]]\<rparr>"

definition field_ex :: "int field" where
  "field_ex = \<lparr>dims = [(0, grid 2)], field_values = [[1, 2]]\<rparr>"

definition attach :: "'c field \<Rightarrow> 'c list list option \<Rightarrow> error + 'c field" where
  "attach fld fvalues = Inr (case fvalues of None \<Rightarrow> fld | Some vs \<Rightarrow> fld\<lparr>field_values := vs\<rparr>)"

text \<open>A periodic table left over from an earlier geometry: it references images 0 and 5.\<close>

definition stale_ptwo_ex :: "int ptwo_row df" where
  "stale_ptwo_ex = [(0, \<lparr>prjd_atom0 = 0, prjd_atom1 = 5, pdistance = 28, pbond = False\<rparr>)]"

definition cached_universe :: "(int, string list) universe" where
  "cached_universe = periodic_universe\<lparr>attr_unit_atom := Val [(1, moved_to (- 1))],
      attr_visual_atom := Val [(1, moved_to (- 1))], attr_projected_atom := Val images_ex,
      attr_molecule := Val [''H(2)'']\<rparr>"

section \<open>Properties\<close>

subsection \<open>Accessors\<close>

lemma molecule_Unset:
  assumes "attr_molecule u = Unset" and "cm u = (Inr m, u1)"
  shows "molecule cm cva cmcom hconcat u = (Inr (Some m), u1\<lparr>attr_molecule := Val m\<rparr>)"
  using assms by (simp add: molecule_def attr_is_def compute_molecule_def getattr_def)

lemma molecule_Val:
  assumes "attr_molecule u = Val m"
  shows "molecule cm cva cmcom hconcat u = (Inr (Some m), u)"
  using assms by (simp add: molecule_def attr_is_def getattr_def)

lemma projected_atom_PyNone:
  assumes "attr_projected_atom u = PyNone" and "cpa u = (Inr p, u1)"
  shows "projected_atom cpa u = (Inr (Some p), u1\<lparr>attr_projected_atom := Val p\<rparr>)"
  using assms by (simp add: projected_atom_def compute_projected_atom_def getattr_def)

lemma projected_atom_Val:
  assumes "attr_projected_atom u = Val p"
  shows "projected_atom cpa u = (Inr (Some p), u)"
  using assms by (simp add: projected_atom_def getattr_def)

lemma unit_atom_Unset:
  assumes "attr_unit_atom u = Unset" and "cua u = (Inr t, u1)"
  shows "unit_atom cua u = (update (atom u1) t, u1\<lparr>attr_unit_atom := Val t\<rparr>)"
  using assms by (simp add: unit_atom_def attr_is_def compute_unit_atom_def updated_copy_def)

lemma unit_atom_Val:
  assumes "attr_unit_atom u = Val t"
  shows "unit_atom cua u = (update (atom u) t, u)"
  using assms by (simp add: unit_atom_def attr_is_def updated_copy_def)

lemma update_distinct:
  "distinct (map fst t) \<Longrightarrow>
   update a t = Inr (map (\<lambda>(i, r). (i, case map_of t i of None \<Rightarrow> r | Some o' \<Rightarrow> update_row r o')) a)"
  by (simp add: update_def)

text \<open>
  C1, as stated: an accessor returns the cached value. For \<open>unit_atom\<close> this fails:
  with the overlay cached (here the empty overlay) the accessor returns the Atom table
  updated with the overlay, which is not the cached table. The helper is not called.
\<close>

theorem unit_atom_returns_cached_counterexample:
  "attr_unit_atom (free_universe\<lparr>attr_unit_atom := Val []\<rparr>) = Val []
   \<and> unit_atom (raises TypeError) (free_universe\<lparr>attr_unit_atom := Val []\<rparr>)
      = (Inr [(0, H_at 1), (1, H_at 9)], free_universe\<lparr>attr_unit_atom := Val []\<rparr>)
   \<and> [(0, H_at 1), (1, H_at 9)] \<noteq> ([] :: int atom_row df)"
  by (simp add: unit_atom_def attr_is_def updated_copy_def update_def free_universe_def)

text \<open>
  C1, amended. \<open>projected_atom\<close>, when \<^verbatim>\<open>_projected_atom\<close> is \<^verbatim>\<open>None\<close>, and
  \<open>molecule\<close>, when the attribute \<^verbatim>\<open>_molecule\<close> does not exist, run the compute method
  and return the table it cached; \<open>unit_atom\<close>, when the attribute \<^verbatim>\<open>_unit_atom\<close> does
  not exist, runs \<open>compute_unit_atom\<close> and returns the Atom table updated with the cached
  overlay. With the table cached, each accessor gives the same result and leaves the
  universe as it is whatever the helper is: the compute method is not run again.
\<close>

theorem lazy_accessors:
  "(attr_projected_atom u = PyNone \<and> cpa u = (Inr p, u1) \<longrightarrow>
      projected_atom cpa u = (Inr (Some p), u1\<lparr>attr_projected_atom := Val p\<rparr>))
   \<and> (attr_projected_atom u = Val p \<longrightarrow> projected_atom cpa u = (Inr (Some p), u))
   \<and> (attr_molecule u = Unset \<and> cm u = (Inr m, u2) \<longrightarrow>
      molecule cm cva cmcom hconcat u = (Inr (Some m), u2\<lparr>attr_molecule := Val m\<rparr>))
   \<and> (attr_molecule u = Val m \<longrightarrow> molecule cm cva cmcom hconcat u = (Inr (Some m), u))
   \<and> (attr_unit_atom u = Unset \<and> cua u = (Inr t, u3) \<longrightarrow>
      unit_atom cua u = (update (atom u3) t, u3\<lparr>attr_unit_atom := Val t\<rparr>))
   \<and> (attr_unit_atom u = Val t \<longrightarrow> unit_atom cua u = (update (atom u) t, u))"
  by (simp add: projected_atom_PyNone projected_atom_Val molecule_Unset molecule_Val
      unit_atom_Unset unit_atom_Val)

theorem lazy_accessors_witness:
  "attr_projected_atom periodic_universe = PyNone
   \<and> returns images_ex periodic_universe = (Inr images_ex, periodic_universe)
   \<and> projected_atom (returns images_ex) periodic_universe
       = (Inr (Some images_ex), periodic_universe\<lparr>attr_projected_atom := Val images_ex\<rparr>)
   \<and> attr_molecule periodic_universe = Unset
   \<and> molecule (returns [''H(2)'']) (raises TypeError) (raises TypeError :: (unit, int, string list) helper) (\<lambda>m k. Inl TypeError) periodic_universe
       = (Inr (Some [''H(2)'']), periodic_universe\<lparr>attr_molecule := Val [''H(2)'']\<rparr>)
   \<and> attr_unit_atom periodic_universe = Unset
   \<and> unit_atom (returns [(1, moved_to (- 1))]) periodic_universe
       = (Inr [(0, H_at 1), (1, (H_at 9)\<lparr>cx := Some (- 1)\<rparr>)],
          periodic_universe\<lparr>attr_unit_atom := Val [(1, moved_to (- 1))]\<rparr>)
   \<and> attr_projected_atom cached_universe = Val images_ex
   \<and> projected_atom (raises TypeError) cached_universe = (Inr (Some images_ex), cached_universe)
   \<and> attr_molecule cached_universe = Val [''H(2)'']
   \<and> molecule (raises TypeError) (raises TypeError) (raises TypeError :: (unit, int, string list) helper) (\<lambda>m k. Inl TypeError) cached_universe
       = (Inr (Some [''H(2)'']), cached_universe)
   \<and> attr_unit_atom cached_universe = Val [(1, moved_to (- 1))]
   \<and> unit_atom (raises TypeError) cached_universe
       = (Inr [(0, H_at 1), (1, (H_at 9)\<lparr>cx := Some (- 1)\<rparr>)], cached_universe)"
  using lazy_accessors [where u = periodic_universe and cpa = "returns images_ex" and p = images_ex
      and ?u1.0 = periodic_universe and cm = "returns [''H(2)'']" and m = "[''H(2)'']"
      and ?u2.0 = periodic_universe and cua = "returns [(1, moved_to (- 1))]"
      and t = "[(1, moved_to (- 1))]" and ?u3.0 = periodic_universe
      and cva = "raises TypeError" and cmcom = "raises TypeError :: (unit, int, string list) helper"
      and hconcat = "\<lambda>m k. Inl TypeError"]
    lazy_accessors [where u = cached_universe and cpa = "raises TypeError" and p = images_ex
      and cm = "raises TypeError" and m = "[''H(2)'']"
      and cua = "raises TypeError" and t = "[(1, moved_to (- 1))]"
      and cva = "raises TypeError" and cmcom = "raises TypeError :: (unit, int, string list) helper"
      and hconcat = "\<lambda>m k. Inl TypeError"]
  by (simp add: periodic_universe_def free_universe_def cached_universe_def returns_def
      update_def update_row_def over_def H_at_def moved_to_def)

text \<open>
  C10: for a universe that is not periodic, \<open>visual_atom\<close> returns the Atom table and
  changes nothing, whatever the helper; for a periodic universe whose overlay is
  \<^verbatim>\<open>None\<close> it runs the helper, caches the overlay and returns the Atom table with the
  rows of the overlay overridden, the stored Atom table being the one the helper left;
  with the overlay cached it returns the same without running the helper.
\<close>

theorem visual_atom_overlay:
  "(\<not> is_periodic u \<longrightarrow> visual_atom cva u = (Inr (atom u), u))
   \<and> (is_periodic u \<and> attr_visual_atom u = PyNone \<and> cva u = (Inr t, u1) \<and> distinct (map fst t) \<longrightarrow>
        visual_atom cva u =
          (Inr (map (\<lambda>(i, r). (i, case map_of t i of None \<Rightarrow> r | Some o' \<Rightarrow> update_row r o')) (atom u1)),
           u1\<lparr>attr_visual_atom := Val t\<rparr>)
        \<and> atom (snd (visual_atom cva u)) = atom u1)
   \<and> (is_periodic u \<and> attr_visual_atom u = Val t \<and> distinct (map fst t) \<longrightarrow>
        visual_atom cva u =
          (Inr (map (\<lambda>(i, r). (i, case map_of t i of None \<Rightarrow> r | Some o' \<Rightarrow> update_row r o')) (atom u)), u))"
  by (simp add: visual_atom_def getattr_def compute_visual_atom_def updated_copy_def update_distinct)

theorem visual_atom_overlay_witness:
  "\<not> is_periodic free_universe
   \<and> visual_atom (raises TypeError) free_universe = (Inr [(0, H_at 1), (1, H_at 9)], free_universe)
   \<and> is_periodic periodic_universe \<and> attr_visual_atom periodic_universe = PyNone
   \<and> returns [(1, moved_to (- 1))] periodic_universe = (Inr [(1, moved_to (- 1))], periodic_universe)
   \<and> distinct (map fst [(1 :: int, moved_to (- 1))])
   \<and> visual_atom (returns [(1, moved_to (- 1))]) periodic_universe
      = (Inr [(0, H_at 1), (1, (H_at 9)\<lparr>cx := Some (- 1)\<rparr>)],
         periodic_universe\<lparr>attr_visual_atom := Val [(1, moved_to (- 1))]\<rparr>)
   \<and> atom (periodic_universe\<lparr>attr_visual_atom := Val [(1, moved_to (- 1))]\<rparr>) = [(0, H_at 1), (1, H_at 9)]
   \<and> is_periodic cached_universe \<and> attr_visual_atom cached_universe = Val [(1, moved_to (- 1))]
   \<and> visual_atom (raises TypeError) cached_universe
      = (Inr [(0, H_at 1), (1, (H_at 9)\<lparr>cx := Some (- 1)\<rparr>)], cached_universe)"
  using visual_atom_overlay [where u = free_universe and cva = "raises TypeError"]
    visual_atom_overlay [where u = periodic_universe and cva = "returns [(1, moved_to (- 1))]"
      and t = "[(1, moved_to (- 1))]" and ?u1.0 = periodic_universe]
    visual_atom_overlay [where u = cached_universe and cva = "raises TypeError"
      and t = "[(1, moved_to (- 1))]"]
  by (simp add: periodic_universe_def free_universe_def cached_universe_def returns_def
      is_periodic_def update_row_def over_def H_at_def moved_to_def)

subsection \<open>Classification\<close>

text \<open>
  C8: when the attribute \<^verbatim>\<open>_molecule\<close> does not exist, \<open>classify_molecules\<close> runs the
  helper of \<open>compute_molecule\<close> and classifies the table it returned; when the table is
  cached it classifies the cached table, whatever the helper.
\<close>

theorem classify_molecules_computes_first:
  "(attr_molecule u = Unset \<and> cm u = (Inr m, u1) \<and> classify m = (r, m') \<longrightarrow>
      classify_molecules cm cva cmcom hconcat classify u = (r, u1\<lparr>attr_molecule := Val m'\<rparr>))
   \<and> (attr_molecule u = Val m \<and> classify m = (r, m') \<longrightarrow>
      classify_molecules cm cva cmcom hconcat classify u = (r, u\<lparr>attr_molecule := Val m'\<rparr>))"
  by (simp add: classify_molecules_def molecule_Unset molecule_Val)

theorem classify_molecules_computes_first_witness:
  "attr_molecule periodic_universe = Unset
   \<and> returns [''H(2)''] periodic_universe = (Inr [''H(2)''], periodic_universe)
   \<and> tag_solute [''H(2)''] = (Inr (), [''H(2):solute''])
   \<and> classify_molecules (returns [''H(2)'']) (raises TypeError)
        (raises TypeError :: (unit, int, string list) helper) (\<lambda>m k. Inl TypeError) tag_solute periodic_universe
      = (Inr (), periodic_universe\<lparr>attr_molecule := Val [''H(2):solute'']\<rparr>)
   \<and> attr_molecule cached_universe = Val [''H(2)'']
   \<and> classify_molecules (raises TypeError) (raises TypeError)
        (raises TypeError :: (unit, int, string list) helper) (\<lambda>m k. Inl TypeError) tag_solute cached_universe
      = (Inr (), cached_universe\<lparr>attr_molecule := Val [''H(2):solute'']\<rparr>)"
  using classify_molecules_computes_first [where u = periodic_universe and cm = "returns [''H(2)'']"
      and m = "[''H(2)'']" and ?u1.0 = periodic_universe and classify = tag_solute
      and r = "Inr ()" and m' = "[''H(2):solute'']" and cva = "raises TypeError"
      and cmcom = "raises TypeError :: (unit, int, string list) helper" and hconcat = "\<lambda>m k. Inl TypeError"]
    classify_molecules_computes_first [where u = cached_universe and cm = "raises TypeError"
      and m = "[''H(2)'']" and classify = tag_solute
      and r = "Inr ()" and m' = "[''H(2):solute'']" and cva = "raises TypeError"
      and cmcom = "raises TypeError :: (unit, int, string list) helper" and hconcat = "\<lambda>m k. Inl TypeError"]
  by (simp add: periodic_universe_def free_universe_def cached_universe_def returns_def tag_solute_def)

subsection \<open>Operations that are not implemented\<close>

text \<open>
  C9: \<open>append_dataframe\<close> and \<open>slice_by_molecules\<close> raise \<^verbatim>\<open>NotImplementedError\<close> on
  every input and leave the universe as it is.
\<close>

theorem not_implemented_raise:
  "append_dataframe d u = (Inl NotImplementedError, u)
   \<and> slice_by_molecules identifier u = (Inl NotImplementedError, u)"
  by (simp add: append_dataframe_def slice_by_molecules_def)

subsection \<open>Truncation and two-body tables\<close>

lemma truncate_projected_atom_Val:
  assumes "periodic_two u = Val t" and "attr_projected_atom u = Val p"
  shows "truncate_projected_atom u =
     (Inr (), u\<lparr>attr_projected_atom := Val (filter (\<lambda>(i, r). i \<in> set (prjd_ids t)) p)\<rparr>)"
  using assms by (simp add: truncate_projected_atom_def getattr_def)

text \<open>
  C2 on the code. The periodic pair table of a universe is \<open>two_periodic\<close>; here it holds
  one bond, between images 1 and 3. \<open>truncate_projected_atom\<close> reads the attribute
  \<^verbatim>\<open>periodic_two\<close> instead. Where that attribute does not exist the method raises and
  the six images stay. Where it holds another table (one that references images 0 and
  5) the projected table is cut down to images 0 and 5, and the bonded images 1 and 3
  of \<open>two_periodic\<close> no longer resolve.
\<close>

theorem truncate_reads_stale_attribute:
  "two_periodic bonded_periodic_universe = Val ptwo_ex
   \<and> prjd_ids ptwo_ex = [1, 3]
   \<and> truncate_projected_atom bonded_periodic_universe
      = (Inl AttributeError, bonded_periodic_universe)
   \<and> attr_projected_atom bonded_periodic_universe = Val images_ex
   \<and> truncate_projected_atom (bonded_periodic_universe\<lparr>periodic_two := Val stale_ptwo_ex\<rparr>)
      = (Inr (), bonded_periodic_universe\<lparr>periodic_two := Val stale_ptwo_ex,
           attr_projected_atom := Val [(0, image_of 0 (- 9)), (5, image_of 1 19)]\<rparr>)
   \<and> map_of [(0 :: int, image_of 0 (- 9)), (5, image_of 1 19)] 1 = None
   \<and> map_of [(0 :: int, image_of 0 (- 9)), (5, image_of 1 19)] 3 = None"
  by (simp add: truncate_projected_atom_def getattr_def bonded_periodic_universe_def
      periodic_universe_def free_universe_def images_ex_def ptwo_ex_def stale_ptwo_ex_def
      prjd_ids_def)

lemma compute_two_body_free:
  assumes "\<not> is_periodic u" and "ctbf u = (Inr t, u1)"
  shows "compute_two_body ctbp ctbf truncate_projected u = (Inr (), u1\<lparr>two_free := Val t\<rparr>)"
  using assms by (simp add: compute_two_body_def)

lemma compute_two_body_periodic_no_truncation:
  assumes "is_periodic u" and "ctbp u = (Inr t, u1)"
  shows "compute_two_body ctbp ctbf False u = (Inr (), u1\<lparr>two_periodic := Val t\<rparr>)"
  using assms by (simp add: compute_two_body_def)

lemma compute_two_body_periodic_unset:
  assumes "is_periodic u" and "ctbp u = (Inr t, u1)" and "periodic_two u1 = Unset"
  shows "compute_two_body ctbp ctbf True u = (Inl AttributeError, u1\<lparr>two_periodic := Val t\<rparr>)"
  using assms by (simp add: compute_two_body_def truncate_projected_atom_def getattr_def)

text \<open>
  C3 at a periodic universe with its projected images cached and the default
  \<open>truncate_projected = True\<close>: \<open>compute_two_body\<close> stores the new table in
  \<open>two_periodic\<close>, then \<open>truncate_projected_atom\<close> reads the attribute
  \<^verbatim>\<open>periodic_two\<close>, which does not exist: the call raises and the projected table is
  not truncated.
\<close>

theorem compute_two_body_truncation_fails:
  "compute_two_body (returns ptwo_ex) (returns two_ex) True
      (periodic_universe\<lparr>attr_projected_atom := Val images_ex\<rparr>)
   = (Inl AttributeError,
      periodic_universe\<lparr>attr_projected_atom := Val images_ex, two_periodic := Val ptwo_ex\<rparr>)"
  by (simp add: compute_two_body_def truncate_projected_atom_def getattr_def returns_def
      is_periodic_def periodic_universe_def free_universe_def)

subsection \<open>Reassigning a base table\<close>

text \<open>
  C4, as stated: reassigning Frame sends the derived tables back to absent. It does
  not: after \<open>compute_frame\<close> has replaced the Frame table the cached unit-atom overlay
  is still there.
\<close>

theorem reassignment_invalidates_counterexample:
  "compute_frame (\<lambda>a. Inr \<lparr>frame_index = [0, 1], frame_is_periodic = True\<rparr>)
      (free_universe\<lparr>attr_unit_atom := Val [(1, moved_to 3)]\<rparr>)
    = (Inr (), free_universe\<lparr>frame := \<lparr>frame_index = [0, 1], frame_is_periodic = True\<rparr>,
                             attr_unit_atom := Val [(1, moved_to 3)]\<rparr>)
   \<and> attr_is (attr_unit_atom (free_universe\<lparr>frame := \<lparr>frame_index = [0, 1], frame_is_periodic = True\<rparr>,
                             attr_unit_atom := Val [(1, moved_to 3)]\<rparr>))"
  by (simp add: compute_frame_def set_frame_def attr_is_def free_universe_def)

text \<open>
  C4, amended: reassigning a base table invalidates nothing. After the Frame table is
  replaced (by assignment or by \<open>compute_frame\<close>) or the Atom table is replaced (by
  assignment), the tables UnitAtom, VisualAtom, ProjectedAtom (its bond counts
  included), Two, PeriodicTwo and Molecule are exactly what they were, and the next
  access of \<open>projected_atom\<close>, \<open>molecule\<close> or \<open>unit_atom\<close> uses the cached table without
  running the helper. Replacing Frame leaves the Atom table, bond counts included, as it
  was; replacing Atom puts the new table in its place, so the bond counts of Atom are
  those of the new table.
\<close>

theorem reassignment_keeps_derived_tables:
  "derived_tables (set_frame f u) = derived_tables u \<and> atom (set_frame f u) = atom u
   \<and> derived_tables (set_atom a u) = derived_tables u \<and> atom (set_atom a u) = a
   \<and> derived_tables (snd (compute_frame minimal_frame u)) = derived_tables u
   \<and> atom (snd (compute_frame minimal_frame u)) = atom u
   \<and> (attr_projected_atom u = Val p \<longrightarrow>
        projected_atom cpa (snd (compute_frame minimal_frame u))
          = (Inr (Some p), snd (compute_frame minimal_frame u))
        \<and> projected_atom cpa (set_frame f u) = (Inr (Some p), set_frame f u)
        \<and> projected_atom cpa (set_atom a u) = (Inr (Some p), set_atom a u))
   \<and> (attr_molecule u = Val m \<longrightarrow>
        molecule cm cva cmcom hconcat (snd (compute_frame minimal_frame u))
          = (Inr (Some m), snd (compute_frame minimal_frame u))
        \<and> molecule cm cva cmcom hconcat (set_frame f u) = (Inr (Some m), set_frame f u)
        \<and> molecule cm cva cmcom hconcat (set_atom a u) = (Inr (Some m), set_atom a u))
   \<and> (attr_unit_atom u = Val t \<longrightarrow>
        unit_atom cua (snd (compute_frame minimal_frame u))
          = (update (atom u) t, snd (compute_frame minimal_frame u))
        \<and> unit_atom cua (set_frame f u) = (update (atom u) t, set_frame f u)
        \<and> unit_atom cua (set_atom a u) = (update a t, set_atom a u))"
proof -
  have slots: "attr_projected_atom (snd (compute_frame minimal_frame u)) = attr_projected_atom u"
    "attr_molecule (snd (compute_frame minimal_frame u)) = attr_molecule u"
    "attr_unit_atom (snd (compute_frame minimal_frame u)) = attr_unit_atom u"
    "atom (snd (compute_frame minimal_frame u)) = atom u"
    by (simp_all add: compute_frame_def set_frame_def split: sum.split)
  have tables: "derived_tables (snd (compute_frame minimal_frame u)) = derived_tables u"
    by (simp add: derived_tables_def compute_frame_def set_frame_def split: sum.split)
  have base: "derived_tables (set_frame f u) = derived_tables u \<and> atom (set_frame f u) = atom u
      \<and> derived_tables (set_atom a u) = derived_tables u \<and> atom (set_atom a u) = a"
    by (simp add: derived_tables_def set_frame_def set_atom_def)
  have prj: "attr_projected_atom u = Val p \<longrightarrow>
        projected_atom cpa (snd (compute_frame minimal_frame u))
          = (Inr (Some p), snd (compute_frame minimal_frame u))
        \<and> projected_atom cpa (set_frame f u) = (Inr (Some p), set_frame f u)
        \<and> projected_atom cpa (set_atom a u) = (Inr (Some p), set_atom a u)"
    using projected_atom_Val [of "snd (compute_frame minimal_frame u)" p cpa]
      projected_atom_Val [of "set_frame f u" p cpa] projected_atom_Val [of "set_atom a u" p cpa]
      slots(1)
    by (simp add: set_frame_def set_atom_def)
  have mol: "attr_molecule u = Val m \<longrightarrow>
        molecule cm cva cmcom hconcat (snd (compute_frame minimal_frame u))
          = (Inr (Some m), snd (compute_frame minimal_frame u))
        \<and> molecule cm cva cmcom hconcat (set_frame f u) = (Inr (Some m), set_frame f u)
        \<and> molecule cm cva cmcom hconcat (set_atom a u) = (Inr (Some m), set_atom a u)"
    using molecule_Val [of "snd (compute_frame minimal_frame u)" m cm cva cmcom hconcat]
      molecule_Val [of "set_frame f u" m cm cva cmcom hconcat]
      molecule_Val [of "set_atom a u" m cm cva cmcom hconcat]
      slots(2)
    by (simp add: set_frame_def set_atom_def)
  have uni: "attr_unit_atom u = Val t \<longrightarrow>
        unit_atom cua (snd (compute_frame minimal_frame u))
          = (update (atom u) t, snd (compute_frame minimal_frame u))
        \<and> unit_atom cua (set_frame f u) = (update (atom u) t, set_frame f u)
        \<and> unit_atom cua (set_atom a u) = (update a t, set_atom a u)"
    using unit_atom_Val [of "snd (compute_frame minimal_frame u)" t cua]
      unit_atom_Val [of "set_frame f u" t cua] unit_atom_Val [of "set_atom a u" t cua]
      slots(3,4)
    by (simp add: set_frame_def set_atom_def)
  from base tables slots(4) prj mol uni show ?thesis by blast
qed

theorem reassignment_keeps_derived_tables_witness:
  "attr_projected_atom cached_universe = Val images_ex
   \<and> attr_molecule cached_universe = Val [''H(2)'']
   \<and> attr_unit_atom cached_universe = Val [(1, moved_to (- 1))]
   \<and> compute_frame (\<lambda>a. Inr \<lparr>frame_index = [0, 1], frame_is_periodic = True\<rparr>) cached_universe
      = (Inr (), set_frame \<lparr>frame_index = [0, 1], frame_is_periodic = True\<rparr> cached_universe)
   \<and> projected_atom (raises TypeError) (set_frame \<lparr>frame_index = [0, 1], frame_is_periodic = True\<rparr> cached_universe)
      = (Inr (Some images_ex), set_frame \<lparr>frame_index = [0, 1], frame_is_periodic = True\<rparr> cached_universe)
   \<and> molecule (raises TypeError) (raises TypeError)
        (raises TypeError :: (unit, int, string list) helper) (\<lambda>m k. Inl TypeError)
        (set_atom [(0, H_at 4)] cached_universe)
      = (Inr (Some [''H(2)'']), set_atom [(0, H_at 4)] cached_universe)
   \<and> unit_atom (raises TypeError) (set_atom [(0, H_at 4), (1, H_at 5)] cached_universe)
      = (Inr [(0, H_at 4), (1, (H_at 5)\<lparr>cx := Some (- 1)\<rparr>)],
         set_atom [(0, H_at 4), (1, H_at 5)] cached_universe)
   \<and> derived_tables (set_atom [(0, H_at 4)] cached_universe) = derived_tables cached_universe"
  using reassignment_keeps_derived_tables [where u = cached_universe and p = images_ex
      and m = "[''H(2)'']" and t = "[(1, moved_to (- 1))]"
      and f = "\<lparr>frame_index = [0, 1], frame_is_periodic = True\<rparr>"
      and a = "[(0, H_at 4)]" and cpa = "raises TypeError" and cm = "raises TypeError"
      and cva = "raises TypeError" and cmcom = "raises TypeError :: (unit, int, string list) helper"
      and hconcat = "\<lambda>m k. Inl TypeError" and cua = "raises TypeError"
      and minimal_frame = "\<lambda>a. Inr \<lparr>frame_index = [0, 1], frame_is_periodic = True\<rparr>"]
    reassignment_keeps_derived_tables [where u = cached_universe and p = images_ex
      and m = "[''H(2)'']" and t = "[(1, moved_to (- 1))]"
      and f = "\<lparr>frame_index = [0, 1], frame_is_periodic = True\<rparr>"
      and a = "[(0, H_at 4), (1, H_at 5)]" and cpa = "raises TypeError" and cm = "raises TypeError"
      and cva = "raises TypeError" and cmcom = "raises TypeError :: (unit, int, string list) helper"
      and hconcat = "\<lambda>m k. Inl TypeError" and cua = "raises TypeError"
      and minimal_frame = "\<lambda>a. Inr \<lparr>frame_index = [0, 1], frame_is_periodic = True\<rparr>"]
  by (simp add: cached_universe_def periodic_universe_def free_universe_def compute_frame_def
      update_def update_row_def over_def H_at_def moved_to_def)

subsection \<open>Fields\<close>







text \<open>
  C6, as stated: every integer frame that is not in the index of the Frame table makes
  \<open>append_field\<close> raise \<^verbatim>\<open>IndexError\<close>. The integer 5 of a type other than
  \<^verbatim>\<open>int\<close>, \<^verbatim>\<open>np.int64\<close>, \<^verbatim>\<open>np.int32\<close> is not in the index \<open>[0]\<close>, and the call
  returns: the field is attached as given.
\<close>

theorem append_field_other_integer_counterexample:
  "5 \<notin> set (frame_index (frame free_universe))
   \<and> append_field attach field_ex (FrameOtherInt 5) None free_universe
      = (Inr (), free_universe\<lparr>attr_field := Val field_ex, traits_need_update := True\<rparr>)"
  by (simp add: append_field_def attach_def getattr_def free_universe_def)

text \<open>
  C6, amended, for a frame of type \<^verbatim>\<open>int\<close>, \<^verbatim>\<open>np.int64\<close> or \<^verbatim>\<open>np.int32\<close>. When it
  is not in the index of the Frame table, \<open>append_field\<close> raises \<^verbatim>\<open>IndexError\<close> and
  leaves the universe as it is, whatever \<^verbatim>\<open>_reconstruct_field\<close> is. When it is in the
  index, the field handed to \<^verbatim>\<open>_reconstruct_field\<close> is the given one with the frame
  set on every dimension row (labels, other columns and value arrays as given), and the
  field \<open>d\<close> built from it is what is attached: stored as the field store when the store
  is \<^verbatim>\<open>None\<close>, appended to it otherwise.
\<close>

theorem append_field_frame_check:
  "(k \<notin> set (frame_index (frame u)) \<longrightarrow>
      append_field rf fld (FrameInt k) fvalues u = (Inl IndexError, u))
   \<and> (k \<in> set (frame_index (frame u)) \<longrightarrow>
      append_field rf fld (FrameInt k) fvalues u
        = append_field rf (assign_frame k fld) FrameNone fvalues u
      \<and> (\<forall>(i, r) \<in> set (dims (assign_frame k fld)). ff_frame r = Some k)
      \<and> map fst (dims (assign_frame k fld)) = map fst (dims fld)
      \<and> field_values (assign_frame k fld) = field_values fld)
   \<and> dims (assign_frame k fld) = map (\<lambda>(i, r). (i, r\<lparr>ff_frame := Some k\<rparr>)) (dims fld)
   \<and> (k \<in> set (frame_index (frame u)) \<and> rf (assign_frame k fld) fvalues = Inr d
        \<and> attr_field u = PyNone \<longrightarrow>
      append_field rf fld (FrameInt k) fvalues u
        = (Inr (), u\<lparr>attr_field := Val d, traits_need_update := True\<rparr>))
   \<and> (k \<in> set (frame_index (frame u)) \<and> rf (assign_frame k fld) fvalues = Inr d
        \<and> attr_field u = Val st \<longrightarrow>
      append_field rf fld (FrameInt k) fvalues u
        = (Inr (), u\<lparr>attr_field := Val \<lparr>dims = concat_ignore_index (dims st) (dims d),
                                        field_values = field_values st @ field_values d\<rparr>,
                   traits_need_update := True\<rparr>))
   \<and> (k \<in> set (frame_index (frame u)) \<and> rf (assign_frame k fld) fvalues = Inl e \<longrightarrow>
      append_field rf fld (FrameInt k) fvalues u = (Inl e, u))"
  by (auto simp: append_field_def assign_frame_def getattr_def)

theorem append_field_frame_check_witness:
  "5 \<notin> set (frame_index (frame (free_universe\<lparr>attr_field := Val store_ex\<rparr>)))
   \<and> append_field attach field_ex (FrameInt 5) None (free_universe\<lparr>attr_field := Val store_ex\<rparr>)
      = (Inl IndexError, free_universe\<lparr>attr_field := Val store_ex\<rparr>)
   \<and> 0 \<in> set (frame_index (frame (free_universe\<lparr>attr_field := Val store_ex\<rparr>)))
   \<and> dims (assign_frame 0 field_ex) = [(0, (grid 2)\<lparr>ff_frame := Some 0\<rparr>)]
   \<and> ff_frame ((grid 2)\<lparr>ff_frame := Some 0\<rparr>) = Some 0
   \<and> attach (assign_frame 0 field_ex) None = Inr (assign_frame 0 field_ex)
   \<and> attr_field (free_universe\<lparr>attr_field := Val store_ex\<rparr>) = Val store_ex
   \<and> append_field attach field_ex (FrameInt 0) None (free_universe\<lparr>attr_field := Val store_ex\<rparr>)
      = (Inr (), free_universe\<lparr>attr_field :=
            Val \<lparr>dims = [(0, grid 0), (1, grid 1), (2, (grid 2)\<lparr>ff_frame := Some 0\<rparr>)],
                 field_values = [[5, 6], [7, 8], [1, 2]]\<rparr>,
          traits_need_update := True\<rparr>)
   \<and> attr_field free_universe = PyNone
   \<and> append_field attach field_ex (FrameInt 0) None free_universe
      = (Inr (), free_universe\<lparr>attr_field := Val \<lparr>dims = [(0, (grid 2)\<lparr>ff_frame := Some 0\<rparr>)],
                                                  field_values = [[1, 2]]\<rparr>,
                               traits_need_update := True\<rparr>)
   \<and> append_field (\<lambda>x v. Inl ValueError) field_ex (FrameInt 0) None free_universe
      = (Inl ValueError, free_universe)"
  using append_field_frame_check [where k = 5 and u = "free_universe\<lparr>attr_field := Val store_ex\<rparr>"
      and rf = attach and fld = field_ex and fvalues = None]
    append_field_frame_check [where k = 0 and u = "free_universe\<lparr>attr_field := Val store_ex\<rparr>"
      and rf = attach and fld = field_ex and fvalues = None and d = "assign_frame 0 field_ex"
      and st = store_ex]
    append_field_frame_check [where k = 0 and u = free_universe
      and rf = attach and fld = field_ex and fvalues = None and d = "assign_frame 0 field_ex"]
    append_field_frame_check [where k = 0 and u = free_universe
      and rf = "\<lambda>x v. Inl ValueError" and fld = field_ex and fvalues = None and e = ValueError]
  by (simp add: free_universe_def attach_def store_ex_def field_ex_def assign_frame_def
      append_field_def getattr_def concat_ignore_index_def upt_rec)

subsection \<open>Bond counts\<close>

lemma map_of_tabulate:
  "map_of (map (\<lambda>a. (a, g a)) xs) a = (if a \<in> set xs then Some (g a) else None)"
  by (induction xs) auto

lemma map_of_counts_series:
  "map_of (counts_series f keys) a = (if a \<in> set keys \<and> 0 < f a then Some (int (f a)) else None)"
  by (simp add: counts_series_def map_of_tabulate)

lemma distinct_counts_series: "distinct (map fst (counts_series f keys))"
  by (simp add: counts_series_def comp_def)

lemma n_bonds_free_keys:
  "0 < n_bonds_free t a \<Longrightarrow> a \<in> set (map (\<lambda>(i, r). atom0 r) t @ map (\<lambda>(i, r). atom1 r) t)"
  by (induction t) (auto simp: n_bonds_free_def split: if_splits)

lemma n_bonds_prjd_keys: "0 < n_bonds_prjd t j \<Longrightarrow> j \<in> set (prjd_ids t)"
  by (induction t) (auto simp: n_bonds_prjd_def prjd_ids_def split: if_splits)

lemma n_bonds_src_keys: "0 < n_bonds_src p t a \<Longrightarrow> a \<in> set (map (\<lambda>(j, r). src_atom r) p)"
  by (induction p) (auto simp: n_bonds_src_def split: if_splits)

lemma fill_counts:
  assumes "\<And>a. 0 < f a \<Longrightarrow> a \<in> set keys"
  shows "(case map_of (counts_series f keys) a of None \<Rightarrow> Some v | Some c \<Rightarrow> Some c)
         = Some (if f a = 0 then v else int (f a))"
  using assms [of a] by (auto simp: map_of_counts_series)

lemma compute_bond_count_fill:
  assumes "cbc u = (Inr s, u1)" and "distinct (map fst s)"
  shows "compute_bond_count cbc u =
     (Inr (), u1\<lparr>atom := map (\<lambda>(i, r). (i, r\<lparr>bond_count :=
          (case map_of s i of None \<Rightarrow> Some 0 | Some c \<Rightarrow> Some c)\<rparr>)) (atom u1)\<rparr>)"
  using assms
  by (simp add: compute_bond_count_def setitem_bond_count_def fillna_bond_count_def
      comp_def case_prod_unfold)

lemma on_projected_atom_Val:
  assumes "attr_projected_atom u = Val p" and "f p = Inr p'"
  shows "on_projected_atom cpa f u = (Inr (), u\<lparr>attr_projected_atom := Val p'\<rparr>)"
  using assms by (simp add: on_projected_atom_def projected_atom_Val)

lemma compute_projected_bond_count_fill:
  assumes "cpbc u = (Inr s, u1)" and "distinct (map fst s)" and "attr_projected_atom u1 = Val p"
  shows "compute_projected_bond_count cpbc cpa u =
     (Inr (), u1\<lparr>attr_projected_atom := Val (map (\<lambda>(i, r). (i, r\<lparr>prjd_bond_count :=
          (case map_of s i of None \<Rightarrow> Some (- 1) | Some c \<Rightarrow> Some c)\<rparr>)) p)\<rparr>)"
proof -
  let ?p1 = "map (\<lambda>(i, r). (i, r\<lparr>prjd_bond_count := map_of s i\<rparr>)) p"
  let ?p2 = "fillna_prjd_bond_count (- 1) ?p1"
  let ?u2 = "u1\<lparr>attr_projected_atom := Val ?p1\<rparr>"
  let ?u3 = "u1\<lparr>attr_projected_atom := Val ?p2\<rparr>"
  have s1: "on_projected_atom cpa (setitem_prjd_bond_count s) u1 = (Inr (), ?u2)"
    using assms by (simp add: on_projected_atom_Val setitem_prjd_bond_count_def)
  have s2: "on_projected_atom cpa (\<lambda>p. Inr (fillna_prjd_bond_count (- 1) p)) ?u2 = (Inr (), ?u3)"
    by (simp add: on_projected_atom_Val [where p = ?p1])
  have s3: "on_projected_atom cpa Inr ?u3 = (Inr (), ?u3)"
    by (simp add: on_projected_atom_Val [where p = ?p2])
  have p2: "?p2 = map (\<lambda>(i, r). (i, r\<lparr>prjd_bond_count :=
          (case map_of s i of None \<Rightarrow> Some (- 1) | Some c \<Rightarrow> Some c)\<rparr>)) p"
    by (simp add: fillna_prjd_bond_count_def comp_def case_prod_unfold)
  show ?thesis
    using assms(1) s1 s2 s3 p2 by (simp add: compute_projected_bond_count_def)
qed

text \<open>
  C7, with the helpers as the spec describes them. After \<open>compute_bond_count\<close> the
  \<^verbatim>\<open>bond_count\<close> of every atom row is the number of bonds that reference the atom (in a
  periodic universe: that reference its images), a natural number, hence 0 for an atom
  that no bond references. After \<open>compute_projected_bond_count\<close> the \<^verbatim>\<open>bond_count\<close> of
  a projected row is the number of bonds that reference the image, and \<open>- 1\<close> when no
  bond does.
\<close>

theorem bond_count_fill_defaults:
  "(\<not> is_periodic u \<and> two_free u = Val t \<longrightarrow>
      compute_bond_count cbc_spec u =
        (Inr (), u\<lparr>atom := map (\<lambda>(i, r). (i, r\<lparr>bond_count := Some (int (n_bonds_free t i))\<rparr>)) (atom u)\<rparr>))
   \<and> (is_periodic u \<and> two_periodic u = Val q \<and> attr_projected_atom u = Val p \<longrightarrow>
      compute_bond_count cbc_spec u =
        (Inr (), u\<lparr>atom := map (\<lambda>(i, r). (i, r\<lparr>bond_count := Some (int (n_bonds_src p q i))\<rparr>)) (atom u)\<rparr>))
   \<and> (two_periodic u = Val q \<and> attr_projected_atom u = Val p \<longrightarrow>
      compute_projected_bond_count cpbc_spec cpa u =
        (Inr (), u\<lparr>attr_projected_atom := Val (map (\<lambda>(j, r). (j, r\<lparr>prjd_bond_count :=
            Some (if n_bonds_prjd q j = 0 then - 1 else int (n_bonds_prjd q j))\<rparr>)) p)\<rparr>))"
proof (intro conjI impI)
  assume a: "\<not> is_periodic u \<and> two_free u = Val t"
  let ?keys = "map (\<lambda>(i, r). atom0 r) t @ map (\<lambda>(i, r). atom1 r) t"
  have h: "cbc_spec u = (Inr (counts_series (n_bonds_free t) ?keys), u)"
    using a by (simp add: cbc_spec_def)
  have f: "(case map_of (counts_series (n_bonds_free t) ?keys) i of None \<Rightarrow> Some 0 | Some c \<Rightarrow> Some c)
      = Some (int (n_bonds_free t i))" for i
    using fill_counts [of "n_bonds_free t" ?keys 0 i] n_bonds_free_keys [of t] by simp
  show "compute_bond_count cbc_spec u =
        (Inr (), u\<lparr>atom := map (\<lambda>(i, r). (i, r\<lparr>bond_count := Some (int (n_bonds_free t i))\<rparr>)) (atom u)\<rparr>)"
    unfolding compute_bond_count_fill [where cbc = cbc_spec and u = u, OF h distinct_counts_series] f ..
next
  assume a: "is_periodic u \<and> two_periodic u = Val q \<and> attr_projected_atom u = Val p"
  let ?keys = "map (\<lambda>(j, r). src_atom r) p"
  have h: "cbc_spec u = (Inr (counts_series (n_bonds_src p q) ?keys), u)"
    using a by (simp add: cbc_spec_def)
  have f: "(case map_of (counts_series (n_bonds_src p q) ?keys) i of None \<Rightarrow> Some 0 | Some c \<Rightarrow> Some c)
      = Some (int (n_bonds_src p q i))" for i
    using fill_counts [of "n_bonds_src p q" ?keys 0 i] n_bonds_src_keys [of p q] by simp
  show "compute_bond_count cbc_spec u =
        (Inr (), u\<lparr>atom := map (\<lambda>(i, r). (i, r\<lparr>bond_count := Some (int (n_bonds_src p q i))\<rparr>)) (atom u)\<rparr>)"
    unfolding compute_bond_count_fill [where cbc = cbc_spec and u = u, OF h distinct_counts_series] f ..
next
  assume a: "two_periodic u = Val q \<and> attr_projected_atom u = Val p"
  have h: "cpbc_spec u = (Inr (counts_series (n_bonds_prjd q) (prjd_ids q)), u)"
    using a by (simp add: cpbc_spec_def)
  have f: "(case map_of (counts_series (n_bonds_prjd q) (prjd_ids q)) j of None \<Rightarrow> Some (- 1) | Some c \<Rightarrow> Some c)
      = Some (if n_bonds_prjd q j = 0 then - 1 else int (n_bonds_prjd q j))" for j
    using fill_counts [of "n_bonds_prjd q" "prjd_ids q" "- 1" j] n_bonds_prjd_keys [of q] by simp
  from a have p: "attr_projected_atom u = Val p" by simp
  show "compute_projected_bond_count cpbc_spec cpa u =
        (Inr (), u\<lparr>attr_projected_atom := Val (map (\<lambda>(j, r). (j, r\<lparr>prjd_bond_count :=
            Some (if n_bonds_prjd q j = 0 then - 1 else int (n_bonds_prjd q j))\<rparr>)) p)\<rparr>)"
    unfolding compute_projected_bond_count_fill [where cpbc = cpbc_spec and u = u, OF h distinct_counts_series p] f ..
qed

theorem bond_count_fill_defaults_witness:
  "\<not> is_periodic bonded_universe
   \<and> two_free bonded_universe = Val [(0, \<lparr>atom0 = 0, atom1 = 1, distance = 8, bond = False\<rparr>),
                       (1, \<lparr>atom0 = 0, atom1 = 2, distance = 1, bond = True\<rparr>),
                       (2, \<lparr>atom0 = 1, atom1 = 2, distance = 7, bond = False\<rparr>)]
   \<and> compute_bond_count cbc_spec bonded_universe
      = (Inr (), bonded_universe\<lparr>atom := [(0, (H_at 1)\<lparr>bond_count := Some 1\<rparr>),
            (1, (H_at 9)\<lparr>bond_count := Some 0\<rparr>), (2, (H_at 2)\<lparr>bond_count := Some 1\<rparr>)]\<rparr>)
   \<and> is_periodic bonded_periodic_universe
   \<and> two_periodic bonded_periodic_universe = Val ptwo_ex
   \<and> attr_projected_atom bonded_periodic_universe = Val images_ex
   \<and> compute_bond_count cbc_spec bonded_periodic_universe
      = (Inr (), bonded_periodic_universe\<lparr>atom := [(0, (H_at 1)\<lparr>bond_count := Some 1\<rparr>),
            (1, (H_at 9)\<lparr>bond_count := Some 1\<rparr>)]\<rparr>)
   \<and> compute_projected_bond_count cpbc_spec (raises TypeError) bonded_periodic_universe
      = (Inr (), bonded_periodic_universe\<lparr>attr_projected_atom := Val
           [(0, (image_of 0 (- 9))\<lparr>prjd_bond_count := Some (- 1)\<rparr>),
            (1, (image_of 0 1)\<lparr>prjd_bond_count := Some 1\<rparr>),
            (2, (image_of 0 11)\<lparr>prjd_bond_count := Some (- 1)\<rparr>),
            (3, (image_of 1 (- 1))\<lparr>prjd_bond_count := Some 1\<rparr>),
            (4, (image_of 1 9)\<lparr>prjd_bond_count := Some (- 1)\<rparr>),
            (5, (image_of 1 19)\<lparr>prjd_bond_count := Some (- 1)\<rparr>)]\<rparr>)"
  using bond_count_fill_defaults [where u = bonded_universe
      and t = "[(0, \<lparr>atom0 = 0, atom1 = 1, distance = 8, bond = False\<rparr>),
                (1, \<lparr>atom0 = 0, atom1 = 2, distance = 1, bond = True\<rparr>),
                (2, \<lparr>atom0 = 1, atom1 = 2, distance = 7, bond = False\<rparr>)]"
      and cpa = "raises TypeError"]
    bond_count_fill_defaults [where u = bonded_periodic_universe and q = ptwo_ex and p = images_ex
      and cpa = "raises TypeError"]
  by (simp add: bonded_universe_def bonded_periodic_universe_def periodic_universe_def
      free_universe_def is_periodic_def images_ex_def ptwo_ex_def n_bonds_free_def
      n_bonds_prjd_def n_bonds_src_def image_of_def)

end
